theory Spec2Isabelle
  imports Complex_Main
begin

section \<open>Data model\<close>

text \<open>
  An instant is the number of microseconds since the epoch, the resolution of Python's
  \<open>datetime\<close>. The store returns a DateTime column as a timezone-aware \<open>datetime\<close> in
  UTC, which an instant stands for. A \<open>timedelta\<close> is a difference of two instants, in
  microseconds as well.
\<close>

type_synonym datetime = int

type_synonym timedelta = int

definition minutes :: "int \<Rightarrow> timedelta" where
  "minutes n = n * 60 * 1000000"

definition days :: "int \<Rightarrow> timedelta" where
  "days n = n * 86400 * 1000000"

text \<open>
  Python's \<open>float\<close> is the IEEE 754 binary64 format. A float is the rational it
  denotes, and \<open>to_double x\<close> is the float nearest to the rational \<open>x\<close>: \<open>x\<close> is scaled
  to 53 significant bits and rounded to an integer, a tie going to the even one. The
  range of the exponent is left out: between two datetimes (years 1 to 9999) the
  quotients below are zero or lie between \<open>10 ^ -8\<close> and \<open>10 ^ 12\<close> in magnitude, where
  binary64 neither overflows nor loses bits to subnormals.
\<close>

function bit_length :: "int \<Rightarrow> nat" where
  "bit_length n = (if n \<le> 0 then 0 else Suc (bit_length (n div 2)))"
  by pat_completeness auto
termination
  by (relation "measure nat") auto

declare bit_length.simps [simp del]

text \<open>\<open>floor_log2 x\<close> is the \<open>k\<close> with \<open>2 ^ k \<le> x < 2 ^ (k + 1)\<close>, for \<open>x > 0\<close>.\<close>

definition floor_log2 :: "rat \<Rightarrow> int" where
  "floor_log2 x = (if 1 \<le> x then int (bit_length \<lfloor>x\<rfloor>) - 1
                   else - int (bit_length (\<lceil>1 / x\<rceil> - 1)))"

definition pow2 :: "int \<Rightarrow> rat" where
  "pow2 k = (if 0 \<le> k then 2 ^ nat k else 1 / 2 ^ nat (- k))"

definition round_half_even :: "rat \<Rightarrow> int" where
  "round_half_even x =
     (let f = \<lfloor>x\<rfloor>; r = x - of_int f
      in if r < 1 / 2 then f else if 1 / 2 < r then f + 1 else if even f then f else f + 1)"

definition to_double :: "rat \<Rightarrow> rat" where
  "to_double x =
     (if x = 0 then 0
      else let e = floor_log2 \<bar>x\<bar> - 52
           in sgn x * of_int (round_half_even (\<bar>x\<bar> / pow2 e)) * pow2 e)"

text \<open>
  \<open>timedelta.total_seconds()\<close> is the true division of the microseconds by \<open>10 ^ 6\<close>,
  an \<open>int / int\<close> whose result is the nearest float. \<open>float_div\<close> is the \<open>/\<close> of a
  float by a nonzero number, again the nearest float of the exact quotient. \<open>int(x)\<close>
  truncates toward zero.
\<close>

definition total_seconds :: "timedelta \<Rightarrow> rat" where
  "total_seconds d = to_double (of_int d / 1000000)"

definition float_div :: "rat \<Rightarrow> rat \<Rightarrow> rat" where
  "float_div x y = to_double (x / y)"

definition py_int :: "rat \<Rightarrow> int" where
  "py_int x = (if x < 0 then \<lceil>x\<rceil> else \<lfloor>x\<rfloor>)"

text \<open>The rows of the store, with the columns the services read or write.\<close>

record Appointment =
  appointment_id :: string
  appointment_title :: string

text \<open>
  A Schedule row as \<open>find_first(..., include={"Appointment": True})\<close> returns it: the
  linked Appointments are the list \<open>Appointment\<close>.
\<close>

record Schedule =
  schedule_id :: string
  userId :: string
  startTime :: datetime
  endTime :: datetime
  available :: bool
  Appointment :: "Appointment list"

record GetAvailabilityResponse =
  resp_userId :: string
  isAvailable :: bool
  message :: "string option"
  timeUntilNextAvailability :: "int option"

section \<open>The availability query\<close>

text \<open>
  The Schedule table is the list of its rows, in the order in which the store yields them.
  \<open>find_first(where=...)\<close> without an order returns the first row that satisfies the
  filter (\<open>List.find\<close>); with \<open>order={"startTime": "asc"}\<close> it returns the first row of
  the matching rows sorted by \<open>startTime\<close>.
\<close>

definition current_where :: "string \<Rightarrow> datetime \<Rightarrow> Schedule \<Rightarrow> bool" where
  "current_where uid now s \<longleftrightarrow> userId s = uid \<and> startTime s \<le> now \<and> endTime s \<ge> now"

definition next_where :: "string \<Rightarrow> datetime \<Rightarrow> Schedule \<Rightarrow> bool" where
  "next_where uid now s \<longleftrightarrow> userId s = uid \<and> startTime s > now \<and> available s"

definition find_first :: "('a \<Rightarrow> bool) \<Rightarrow> 'a list \<Rightarrow> 'a option" where
  "find_first wh rows = find wh rows"

definition find_first_asc :: "('a \<Rightarrow> int) \<Rightarrow> ('a \<Rightarrow> bool) \<Rightarrow> 'a list \<Rightarrow> 'a option" where
  "find_first_asc col wh rows =
     (case sort_key col (filter wh rows) of [] \<Rightarrow> None | r # _ \<Rightarrow> Some r)"

definition current_schedule :: "Schedule list \<Rightarrow> datetime \<Rightarrow> string \<Rightarrow> Schedule option" where
  "current_schedule db now uid = find_first (current_where uid now) db"

definition next_available_schedule :: "Schedule list \<Rightarrow> datetime \<Rightarrow> string \<Rightarrow> Schedule option" where
  "next_available_schedule db now uid = find_first_asc startTime (next_where uid now) db"

text \<open>
  \<open>get_availability(userId)\<close>. The store \<open>db\<close> and the clock reading \<open>now\<close> are explicit
  arguments; \<open>strftime\<close> stands for \<open>startTime.strftime('%Y-%m-%d %H:%M')\<close> of the
  standard library.
\<close>

definition get_availability ::
  "(datetime \<Rightarrow> string) \<Rightarrow> Schedule list \<Rightarrow> datetime \<Rightarrow> string \<Rightarrow> GetAvailabilityResponse" where
  "get_availability strftime db now uid =
     (case current_schedule db now uid of
        Some cur \<Rightarrow>
          if available cur \<and> Appointment cur = [] then
            \<lparr>resp_userId = uid, isAvailable = True, message = Some ''Available'',
             timeUntilNextAvailability = None\<rparr>
          else
            (case next_available_schedule db now uid of
               Some nxt \<Rightarrow>
                 let time_until_next = total_seconds (startTime nxt - now) in
                 \<lparr>resp_userId = uid, isAvailable = False,
                  message = Some (''Unavailable until '' @ strftime (startTime nxt)),
                  timeUntilNextAvailability = Some (py_int (float_div time_until_next 60))\<rparr>
             | None \<Rightarrow>
                 \<lparr>resp_userId = uid, isAvailable = False,
                  message = Some ''No more available schedules today'',
                  timeUntilNextAvailability = None\<rparr>)
      | None \<Rightarrow>
          \<lparr>resp_userId = uid, isAvailable = False, message = Some ''No current schedules found'',
           timeUntilNextAvailability = None\<rparr>)"

section \<open>Errors\<close>

text \<open>The exceptions the services raise, with their message.\<close>

datatype error = ValueError string | Exception string | AttributeError string | TypeError string

text \<open>
  A Python \<open>datetime\<close> is naive or timezone-aware. Ordering a naive and an aware one
  raises \<open>TypeError\<close>.
\<close>

datatype pydatetime = Naive datetime | Aware datetime

definition apostrophe :: char where
  "apostrophe = CHR 0x27"

definition cannot_compare :: string where
  "cannot_compare =
     ''can'' @ [apostrophe] @ ''t compare offset-naive and offset-aware datetimes''"

fun datetime_gt :: "pydatetime \<Rightarrow> pydatetime \<Rightarrow> error + bool" where
  "datetime_gt (Naive a) (Naive b) = Inr (a > b)"
| "datetime_gt (Aware a) (Aware b) = Inr (a > b)"
| "datetime_gt (Naive a) (Aware b) = Inl (TypeError cannot_compare)"
| "datetime_gt (Aware a) (Naive b) = Inl (TypeError cannot_compare)"

section \<open>Refreshing a token\<close>

text \<open>
  An AuthToken row; \<open>token_user_id\<close> is \<open>auth_token.User.id\<close> of the included User.
\<close>

record AuthToken =
  token_id :: string
  token :: string
  expiryDate :: datetime
  token_user_id :: string

record RefreshTokenResponse =
  access_token :: string
  new_refresh_token :: string
  token_type :: string
  expires_in :: int

definition refresh_SECRET_KEY :: string where
  "refresh_SECRET_KEY = ''your_super_secret_key''"

definition ALGORITHM :: string where
  "ALGORITHM = ''HS256''"

definition refresh_ACCESS_TOKEN_EXPIRE_MINUTES :: int where
  "refresh_ACCESS_TOKEN_EXPIRE_MINUTES = 15"

text \<open>
  \<open>find_unique(where={"token": t})\<close> and \<open>update(where={"id": i}, data=...)\<close> on the
  AuthToken table. The constraint violations of the store are not part of the model.
\<close>

definition find_unique :: "('a \<Rightarrow> bool) \<Rightarrow> 'a list \<Rightarrow> 'a option" where
  "find_unique wh rows = find wh rows"

definition update_auth_token :: "string \<Rightarrow> string \<Rightarrow> datetime \<Rightarrow> AuthToken list \<Rightarrow> AuthToken list" where
  "update_auth_token i tok expires rows =
     map (\<lambda>a. if token_id a = i then a\<lparr>token := tok, expiryDate := expires\<rparr> else a) rows"

text \<open>
  \<open>refresh_token(refresh_token)\<close>. \<open>jwt_encode sub expires key alg\<close> stands for
  \<open>jwt.encode({"sub": sub, "exp": expires}, key, algorithm=alg)\<close> of the JWT library; the three
  readings of \<open>datetime.utcnow()\<close> are \<open>now_check\<close>, \<open>now_access\<close> and \<open>now_refresh\<close>.
  \<open>utcnow()\<close> is a naive \<open>datetime\<close>, and \<open>auth_token.expiryDate\<close> is aware, as the
  store returns it (\<open>get_availability\<close> subtracts its aware \<open>now\<close> from a stored
  \<open>startTime\<close>, which Python allows between two aware values only). A successful call
  returns the response and the updated table.
\<close>

definition refresh_token ::
  "(string \<Rightarrow> datetime \<Rightarrow> string \<Rightarrow> string \<Rightarrow> string) \<Rightarrow> AuthToken list \<Rightarrow>
   datetime \<Rightarrow> datetime \<Rightarrow> datetime \<Rightarrow> string \<Rightarrow> error + (RefreshTokenResponse \<times> AuthToken list)" where
  "refresh_token jwt_encode db now_check now_access now_refresh tok =
     (case find_unique (\<lambda>a. token a = tok) db of
        None \<Rightarrow> Inl (ValueError ''Refresh token is invalid or has expired.'')
      | Some auth_token \<Rightarrow>
          (case datetime_gt (Naive now_check) (Aware (expiryDate auth_token)) of
             Inl e \<Rightarrow> Inl e
           | Inr expired \<Rightarrow>
               if expired then
                 Inl (ValueError ''Refresh token is invalid or has expired.'')
               else
                 let access_token_expires =
                       now_access + minutes refresh_ACCESS_TOKEN_EXPIRE_MINUTES;
                     acc = jwt_encode (token_user_id auth_token) access_token_expires
                             refresh_SECRET_KEY ALGORITHM;
                     refresh_token_expires = now_refresh + days 30;
                     new_tok = jwt_encode (token_user_id auth_token) refresh_token_expires
                                 refresh_SECRET_KEY ALGORITHM;
                     db' = update_auth_token (token_id auth_token) new_tok
                             refresh_token_expires db
                 in Inr (\<lparr>access_token = acc, new_refresh_token = new_tok,
                           token_type = ''bearer'',
                           expires_in = refresh_ACCESS_TOKEN_EXPIRE_MINUTES * 60\<rparr>, db')))"

text \<open>
  A deterministic encoder for concrete runs: like the JWT library, it writes the \<open>exp\<close>
  claim as whole seconds.
\<close>

fun decimal :: "nat \<Rightarrow> string" where
  "decimal n = (if n < 10 then [''0123456789'' ! n]
                else decimal (n div 10) @ [''0123456789'' ! (n mod 10)])"

declare decimal.simps [simp del]

definition jwt_encode_seconds :: "string \<Rightarrow> datetime \<Rightarrow> string \<Rightarrow> string \<Rightarrow> string" where
  "jwt_encode_seconds sub expires key alg =
     alg @ ''.'' @ sub @ ''.'' @ decimal (nat (expires div 1000000)) @ ''.'' @ key"

section \<open>Login\<close>

record User =
  user_id :: string
  email :: string
  password :: string
  role :: string

record UserLoginResponse =
  login_token :: string
  login_expires_in :: int

definition login_SECRET_KEY :: string where
  "login_SECRET_KEY = ''your_secret_key_here''"

definition login_ACCESS_TOKEN_EXPIRE_MINUTES :: int where
  "login_ACCESS_TOKEN_EXPIRE_MINUTES = 30"

text \<open>
  \<open>create_access_token(data, expires_delta)\<close> with \<open>data = {"sub": sub}\<close>; a
  \<open>timedelta\<close> is truthy when it is not zero.
\<close>

definition create_access_token ::
  "(string \<Rightarrow> datetime \<Rightarrow> string \<Rightarrow> string \<Rightarrow> string) \<Rightarrow> datetime \<Rightarrow> string \<Rightarrow>
   timedelta option \<Rightarrow> string" where
  "create_access_token jwt_encode now sub expires_delta =
     (let expire = (case expires_delta of
                      Some d \<Rightarrow> if d \<noteq> 0 then now + d else now + minutes 15
                    | None \<Rightarrow> now + minutes 15)
      in jwt_encode sub expire login_SECRET_KEY ALGORITHM)"

text \<open>
  \<open>login_user(email, password)\<close>. \<open>checkpw pw hashed\<close> stands for \<open>bcrypt.checkpw\<close>,
  which returns a boolean or raises on a malformed hash.
\<close>

definition login_user ::
  "(string \<Rightarrow> string \<Rightarrow> error + bool) \<Rightarrow> (string \<Rightarrow> datetime \<Rightarrow> string \<Rightarrow> string \<Rightarrow> string) \<Rightarrow>
   User list \<Rightarrow> datetime \<Rightarrow> string \<Rightarrow> string \<Rightarrow> error + UserLoginResponse" where
  "login_user checkpw jwt_encode users now email_arg password_arg =
     (case find_unique (\<lambda>u. email u = email_arg) users of
        Some user \<Rightarrow>
          (case checkpw password_arg (password user) of
             Inl e \<Rightarrow> Inl e
           | Inr ok \<Rightarrow>
               if ok then
                 let access_token_expires = minutes login_ACCESS_TOKEN_EXPIRE_MINUTES;
                     tok = create_access_token jwt_encode now (email user)
                             (Some access_token_expires)
                 in Inr \<lparr>login_token = tok,
                         login_expires_in = login_ACCESS_TOKEN_EXPIRE_MINUTES * 60\<rparr>
               else Inl (Exception ''Invalid login credentials.''))
      | None \<Rightarrow> Inl (Exception ''Invalid login credentials.''))"

section \<open>Updating a user\<close>

record Profile =
  profile_userId :: string
  firstName :: string
  lastName :: string

record UpdateUserProfileResponse =
  upd_id :: string
  upd_email :: "string option"
  upd_firstName :: "string option"
  upd_lastName :: "string option"
  upd_role :: "string option"
  updateStatus :: string

text \<open>Python's truth value of an \<open>Optional[str]\<close>: neither \<open>None\<close> nor empty.\<close>

definition truthy :: "string option \<Rightarrow> bool" where
  "truthy v = (case v of None \<Rightarrow> False | Some s \<Rightarrow> s \<noteq> [])"

text \<open>
  The payload dictionaries hold a key for each argument that is not \<open>None\<close>;
  \<open>update(where=..., data=payload)\<close> writes the columns of the payload.
\<close>

definition apply_update_payload :: "string option \<Rightarrow> string option \<Rightarrow> User \<Rightarrow> User" where
  "apply_update_payload email_arg role_arg u =
     (let u1 = (case email_arg of None \<Rightarrow> u | Some e \<Rightarrow> u\<lparr>email := e\<rparr>)
      in (case role_arg of None \<Rightarrow> u1 | Some r \<Rightarrow> u1\<lparr>role := r\<rparr>))"

definition apply_profile_payload :: "string option \<Rightarrow> string option \<Rightarrow> Profile \<Rightarrow> Profile" where
  "apply_profile_payload firstName_arg lastName_arg p =
     (let p1 = (case firstName_arg of None \<Rightarrow> p | Some f \<Rightarrow> p\<lparr>firstName := f\<rparr>)
      in (case lastName_arg of None \<Rightarrow> p1 | Some l \<Rightarrow> p1\<lparr>lastName := l\<rparr>))"

definition none_has_no_id :: string where
  "none_has_no_id =
     [apostrophe] @ ''NoneType'' @ [apostrophe] @ '' object has no attribute '' @
     [apostrophe] @ ''id'' @ [apostrophe]"

text \<open>
  \<open>update_user(id, email, firstName, lastName, role)\<close> on the User and Profile tables.
  The result is the response, or the error raised, together with both tables as the call
  leaves them: the Profile is written before the User is read, so an error after that
  write keeps it. \<open>User.update\<close> returns \<open>None\<close> when no row has the id.
\<close>

definition update_user ::
  "User list \<Rightarrow> Profile list \<Rightarrow> string \<Rightarrow> string option \<Rightarrow> string option \<Rightarrow> string option \<Rightarrow>
   string option \<Rightarrow> (error + UpdateUserProfileResponse) \<times> User list \<times> Profile list" where
  "update_user users profiles uid email_arg firstName_arg lastName_arg role_arg =
     (let profiles' =
            (if truthy firstName_arg \<or> truthy lastName_arg then
               (case find_unique (\<lambda>p. profile_userId p = uid) profiles of
                  Some profile \<Rightarrow>
                    map (\<lambda>p. if profile_userId p = uid
                              then apply_profile_payload firstName_arg lastName_arg p else p)
                      profiles
                | None \<Rightarrow> profiles)
             else profiles);
          users' =
            (if email_arg \<noteq> None \<or> role_arg \<noteq> None then
               map (\<lambda>u. if user_id u = uid then apply_update_payload email_arg role_arg u else u)
                 users
             else users)
      in (case find_unique (\<lambda>u. user_id u = uid) users' of
            None \<Rightarrow> (Inl (AttributeError none_has_no_id), users', profiles')
          | Some user \<Rightarrow>
              (Inr \<lparr>upd_id = user_id user, upd_email = Some (email user),
                     upd_firstName = firstName_arg, upd_lastName = lastName_arg,
                     upd_role = Some (role user),
                     updateStatus = ''User profile successfully updated.''\<rparr>,
               users', profiles')))"

section \<open>Concrete stores\<close>

text \<open>
  The rows used to run the services on concrete inputs: one day of a professional
  \<open>u1\<close>, with a block from 10:00 to 11:00 in three variants (free, booked, marked
  unavailable), a block from 11:00 to 12:00 marked unavailable, and a later free block
  from 11:30 to 12:30.
\<close>

definition at_clock :: "int \<Rightarrow> int \<Rightarrow> datetime" where
  "at_clock h m = (h * 3600 + m * 60) * 1000000"

definition ex_free :: Schedule where
  "ex_free = \<lparr>schedule_id = ''s1'', userId = ''u1'', startTime = at_clock 10 0,
              endTime = at_clock 11 0, available = True, Appointment = []\<rparr>"

definition ex_booked :: Schedule where
  "ex_booked = \<lparr>schedule_id = ''s2'', userId = ''u1'', startTime = at_clock 10 0,
                endTime = at_clock 11 0, available = True,
                Appointment = [\<lparr>appointment_id = ''a1'', appointment_title = ''visit''\<rparr>]\<rparr>"

definition ex_blocked :: Schedule where
  "ex_blocked = \<lparr>schedule_id = ''s3'', userId = ''u1'', startTime = at_clock 10 0,
                 endTime = at_clock 11 0, available = False, Appointment = []\<rparr>"

definition ex_later :: Schedule where
  "ex_later = \<lparr>schedule_id = ''s4'', userId = ''u1'', startTime = at_clock 11 30,
               endTime = at_clock 12 30, available = True, Appointment = []\<rparr>"

definition ex_after :: Schedule where
  "ex_after = \<lparr>schedule_id = ''s5'', userId = ''u1'', startTime = at_clock 11 0,
               endTime = at_clock 12 0, available = False, Appointment = []\<rparr>"

text \<open>A free block on 3000-01-01 from 10:00, 376200 days after the epoch day.\<close>

definition ex_far :: Schedule where
  "ex_far = \<lparr>schedule_id = ''s6'', userId = ''u1'',
             startTime = 376200 * 86400 * 1000000 + at_clock 10 0,
             endTime = 376200 * 86400 * 1000000 + at_clock 11 0,
             available = True, Appointment = []\<rparr>"

definition ex_strftime :: "datetime \<Rightarrow> string" where
  "ex_strftime t = (if t = at_clock 11 30 then ''1970-01-01 11:30'' else ''1970-01-01 00:00'')"

text \<open>An AuthToken row holding an opaque token that expires 100 s after the epoch.\<close>

definition ex_opaque :: AuthToken where
  "ex_opaque = \<lparr>token_id = ''t2'', token = ''opaque'', expiryDate = 100000000,
                token_user_id = ''u2''\<rparr>"

definition ex_user :: User where
  "ex_user = \<lparr>user_id = ''u1'', email = ''ann@example.org'', password = ''hash:secret'',
              role = ''Professional''\<rparr>"

definition ex_profile :: Profile where
  "ex_profile = \<lparr>profile_userId = ''u1'', firstName = ''Ann'', lastName = ''Lee''\<rparr>"

definition ex_checkpw :: "string \<Rightarrow> string \<Rightarrow> error + bool" where
  "ex_checkpw pw hashed = Inr (hashed = ''hash:'' @ pw)"

section \<open>Auxiliary facts about the queries\<close>

text \<open>
  \<open>find\<close> returns \<open>x\<close> exactly when \<open>x\<close> is the first element that satisfies the
  filter: nothing before it does.
\<close>

lemma find_Some_split:
  "find P xs = Some x \<longleftrightarrow> (\<exists>pre post. xs = pre @ x # post \<and> (\<forall>p\<in>set pre. \<not> P p) \<and> P x)"
proof (induction xs)
  case Nil
  show ?case by simp
next
  case (Cons a xs)
  show ?case
  proof (cases "P a")
    case True
    have "(\<exists>pre post. a # xs = pre @ x # post \<and> (\<forall>p\<in>set pre. \<not> P p) \<and> P x) \<longleftrightarrow> a = x"
    proof
      assume "\<exists>pre post. a # xs = pre @ x # post \<and> (\<forall>p\<in>set pre. \<not> P p) \<and> P x"
      then obtain pre post where h: "a # xs = pre @ x # post" "\<forall>p\<in>set pre. \<not> P p" by blast
      show "a = x"
      proof (cases pre)
        case Nil
        with h show ?thesis by simp
      next
        case (Cons b pre')
        with h True show ?thesis by auto
      qed
    next
      assume "a = x"
      with True have "a # xs = [] @ x # xs \<and> (\<forall>p\<in>set []. \<not> P p) \<and> P x" by simp
      then show "\<exists>pre post. a # xs = pre @ x # post \<and> (\<forall>p\<in>set pre. \<not> P p) \<and> P x" by blast
    qed
    with True show ?thesis by simp
  next
    case False
    have "(\<exists>pre post. a # xs = pre @ x # post \<and> (\<forall>p\<in>set pre. \<not> P p) \<and> P x)
          \<longleftrightarrow> (\<exists>pre post. xs = pre @ x # post \<and> (\<forall>p\<in>set pre. \<not> P p) \<and> P x)"
      (is "?L \<longleftrightarrow> ?R")
    proof
      assume ?L
      then obtain pre post where h: "a # xs = pre @ x # post" "\<forall>p\<in>set pre. \<not> P p" "P x" by blast
      show ?R
      proof (cases pre)
        case Nil
        with h False show ?thesis by simp
      next
        case (Cons b pre')
        with h have "xs = pre' @ x # post \<and> (\<forall>p\<in>set pre'. \<not> P p) \<and> P x" by simp
        then show ?thesis by blast
      qed
    next
      assume ?R
      then obtain pre post where h: "xs = pre @ x # post" "\<forall>p\<in>set pre. \<not> P p" "P x" by blast
      with False have "a # xs = (a # pre) @ x # post \<and> (\<forall>p\<in>set (a # pre). \<not> P p) \<and> P x" by simp
      then show ?L by blast
    qed
    with False Cons.IH show ?thesis by simp
  qed
qed

lemma find_first_asc_None:
  "find_first_asc col wh rows = None \<longleftrightarrow> (\<forall>r\<in>set rows. \<not> wh r)"
proof -
  have "sort_key col (filter wh rows) = [] \<longleftrightarrow> filter wh rows = []"
    by (metis length_sort length_0_conv)
  then show ?thesis
    by (auto simp: find_first_asc_def filter_empty_conv split: list.splits)
qed

lemma find_first_asc_Some:
  assumes "find_first_asc col wh rows = Some r"
  shows "r \<in> set rows \<and> wh r \<and> (\<forall>x\<in>set rows. wh x \<longrightarrow> col r \<le> col x)"
proof -
  from assms obtain rest where srt: "sort_key col (filter wh rows) = r # rest"
    by (auto simp: find_first_asc_def split: list.splits)
  have "set (sort_key col (filter wh rows)) = set (filter wh rows)" by simp
  with srt have mem: "r \<in> set (filter wh rows)" and
    sub: "set (filter wh rows) = insert r (set rest)" by auto
  have "sorted (map col (sort_key col (filter wh rows)))" by (rule sorted_sort_key)
  with srt have "\<forall>x\<in>set rest. col r \<le> col x" by simp
  with sub have "\<forall>x\<in>set (filter wh rows). col r \<le> col x" by auto
  with mem show ?thesis by simp
qed

text \<open>The floor and the ceiling of a quotient of numerals, to evaluate \<open>to_double\<close>.\<close>

lemma floor_numeral_div:
  "\<lfloor>(numeral a :: rat) / numeral b\<rfloor> = numeral a div numeral b"
  using floor_divide_of_int_eq [of "numeral a" "numeral b", where ?'a = rat] by simp

lemma ceiling_numeral_div:
  "\<lceil>(numeral a :: rat) / numeral b\<rceil> = - ((- numeral a) div numeral b)"
  using floor_divide_of_int_eq [of "- numeral a" "numeral b", where ?'a = rat]
  by (simp add: ceiling_def)

lemmas double_eval = total_seconds_def float_div_def py_int_def to_double_def floor_log2_def
  pow2_def round_half_even_def Let_def floor_numeral_div ceiling_numeral_div bit_length.simps

text \<open>
  Known floats: 0.1, and the tie \<open>2 ^ 53 + 1\<close> that goes to the even neighbour. A
  difference of 58 minutes and 59.999999 seconds gives 58 minutes.
\<close>

lemma to_double_examples:
  "to_double (1 / 10) = 3602879701896397 / 36028797018963968"
  "to_double 9007199254740993 = 9007199254740992"
  "to_double 9007199254740995 = 9007199254740996"
  "py_int (float_div (total_seconds 3539999999) 60) = 58"
  by (simp_all add: double_eval)

lemmas ex_rows = ex_free_def ex_booked_def ex_blocked_def ex_later_def at_clock_def

lemmas avail_defs = get_availability_def current_schedule_def next_available_schedule_def
  find_first_def find_first_asc_def current_where_def next_where_def

lemma current_schedule_Some_iff:
  "current_schedule db now uid = Some c \<longleftrightarrow>
     (\<exists>pre post. db = pre @ c # post \<and> (\<forall>p\<in>set pre. \<not> current_where uid now p) \<and>
        current_where uid now c)"
  by (simp add: current_schedule_def find_first_def find_Some_split)

lemma current_schedule_None_iff:
  "current_schedule db now uid = None \<longleftrightarrow> (\<forall>s\<in>set db. \<not> current_where uid now s)"
  by (auto simp: current_schedule_def find_first_def find_None_iff)

lemma isAvailable_iff:
  "isAvailable (get_availability strftime db now uid) \<longleftrightarrow>
     (\<exists>c. current_schedule db now uid = Some c \<and> available c \<and> Appointment c = [])"
  by (auto simp: get_availability_def Let_def split: option.splits)

section \<open>Claims about the availability query\<close>

text \<open>
  C1, as the code has it. \<open>get_availability\<close> answers \<open>isAvailable = True\<close> exactly when
  the Schedule that the lookup selects, the first stored Schedule of the user whose
  interval contains \<open>now\<close>, has \<open>available = True\<close> and no linked Appointment. So an
  answer \<open>isAvailable = True\<close> occurs only if the user has a Schedule whose interval
  contains \<open>now\<close>, with \<open>available = True\<close> and zero linked Appointments.
\<close>

theorem get_availability_available_iff:
  "(isAvailable (get_availability strftime db now uid) \<longleftrightarrow>
      (\<exists>pre c post. db = pre @ c # post \<and> (\<forall>p\<in>set pre. \<not> current_where uid now p) \<and>
         current_where uid now c \<and> available c \<and> Appointment c = []))
   \<and> (isAvailable (get_availability strftime db now uid) \<longrightarrow>
      (\<exists>s\<in>set db. userId s = uid \<and> startTime s \<le> now \<and> now \<le> endTime s \<and>
         available s \<and> Appointment s = []))"
proof -
  have a: "isAvailable (get_availability strftime db now uid) \<longleftrightarrow>
      (\<exists>pre c post. db = pre @ c # post \<and> (\<forall>p\<in>set pre. \<not> current_where uid now p) \<and>
         current_where uid now c \<and> available c \<and> Appointment c = [])"
    unfolding isAvailable_iff current_schedule_Some_iff by blast
  have b: "\<exists>s\<in>set db. userId s = uid \<and> startTime s \<le> now \<and> now \<le> endTime s \<and>
         available s \<and> Appointment s = []"
    if "isAvailable (get_availability strftime db now uid)"
  proof -
    from that a obtain pre c post where
      h: "db = pre @ c # post" "current_where uid now c" "available c" "Appointment c = []"
      by blast
    then have "c \<in> set db" by simp
    with h show ?thesis unfolding current_where_def by blast
  qed
  from a b show ?thesis by blast
qed

text \<open>The free block alone, asked at 10:30: available.\<close>

theorem get_availability_available_iff_witness:
  "isAvailable (get_availability ex_strftime [ex_free] (at_clock 10 30) ''u1'')"
proof -
  have "[ex_free] = [] @ ex_free # [] \<and> (\<forall>p\<in>set []. \<not> current_where ''u1'' (at_clock 10 30) p) \<and>
        current_where ''u1'' (at_clock 10 30) ex_free \<and> available ex_free \<and> Appointment ex_free = []"
    by (simp add: current_where_def ex_rows)
  then show ?thesis
    using get_availability_available_iff [of ex_strftime "[ex_free]" "at_clock 10 30" "''u1''"]
    by blast
qed

text \<open>
  C1 as stated fails when two Schedules of the user overlap: a free, available block
  from 10:00 to 11:00 exists, but the lookup selects the block marked unavailable that
  is stored before it, and the answer at 10:30 is \<open>isAvailable = False\<close>.
\<close>

theorem free_schedule_behind_blocked_one:
  "ex_free \<in> set [ex_blocked, ex_free] \<and> userId ex_free = ''u1'' \<and>
   startTime ex_free \<le> at_clock 10 30 \<and> at_clock 10 30 \<le> endTime ex_free \<and>
   available ex_free \<and> Appointment ex_free = [] \<and>
   \<not> isAvailable (get_availability ex_strftime [ex_blocked, ex_free] (at_clock 10 30) ''u1'')"
  by (simp add: avail_defs ex_rows)

text \<open>
  When the selected Schedule is not both available and free, the answer is the outcome
  of the forward search.
\<close>

lemma get_availability_not_free:
  assumes "current_schedule db now uid = Some c" "\<not> (available c \<and> Appointment c = [])"
  shows "get_availability strftime db now uid =
     (case next_available_schedule db now uid of
        Some nxt \<Rightarrow>
          \<lparr>resp_userId = uid, isAvailable = False,
           message = Some (''Unavailable until '' @ strftime (startTime nxt)),
           timeUntilNextAvailability = Some (py_int (float_div (total_seconds (startTime nxt - now)) 60))\<rparr>
      | None \<Rightarrow>
          \<lparr>resp_userId = uid, isAvailable = False,
           message = Some ''No more available schedules today'',
           timeUntilNextAvailability = None\<rparr>)"
  using assms by (simp add: get_availability_def Let_def split: option.splits)

lemma next_available_schedule_None_iff:
  "next_available_schedule db now uid = None \<longleftrightarrow> (\<forall>s\<in>set db. \<not> next_where uid now s)"
  by (simp add: next_available_schedule_def find_first_asc_None)

lemma next_available_schedule_Some:
  assumes "next_available_schedule db now uid = Some nxt"
  shows "nxt \<in> set db \<and> next_where uid now nxt \<and>
         (\<forall>s\<in>set db. next_where uid now s \<longrightarrow> startTime nxt \<le> startTime s)"
  using assms unfolding next_available_schedule_def by (rule find_first_asc_Some)

text \<open>
  C2, as the code has it. When the Schedule that the lookup selects (the first stored
  Schedule of the user whose interval contains \<open>now\<close>) has at least one linked
  Appointment, whatever its \<open>available\<close> flag, the answer is \<open>isAvailable = False\<close> and is
  determined by the forward search: the search returns a Schedule of the same user with
  \<open>startTime > now\<close> and \<open>available = True\<close> whose \<open>startTime\<close> is the earliest among
  these, and returns nothing only when there is none.
\<close>

theorem occupied_schedule_searches_forward:
  assumes "db = pre @ c # post" and "\<forall>p\<in>set pre. \<not> current_where uid now p"
    and "current_where uid now c" and "Appointment c \<noteq> []"
  shows "\<not> isAvailable (get_availability strftime db now uid) \<and>
     (case next_available_schedule db now uid of
        Some nxt \<Rightarrow>
          nxt \<in> set db \<and> userId nxt = uid \<and> startTime nxt > now \<and> available nxt \<and>
          (\<forall>s\<in>set db. userId s = uid \<and> startTime s > now \<and> available s
             \<longrightarrow> startTime nxt \<le> startTime s) \<and>
          get_availability strftime db now uid =
            \<lparr>resp_userId = uid, isAvailable = False,
             message = Some (''Unavailable until '' @ strftime (startTime nxt)),
             timeUntilNextAvailability = Some (py_int (float_div (total_seconds (startTime nxt - now)) 60))\<rparr>
      | None \<Rightarrow>
          (\<forall>s\<in>set db. \<not> (userId s = uid \<and> startTime s > now \<and> available s)) \<and>
          get_availability strftime db now uid =
            \<lparr>resp_userId = uid, isAvailable = False,
             message = Some ''No more available schedules today'',
             timeUntilNextAvailability = None\<rparr>)"
proof -
  from assms(1-3) have cur: "current_schedule db now uid = Some c"
    unfolding current_schedule_Some_iff by blast
  from assms(4) have occ: "\<not> (available c \<and> Appointment c = [])" by simp
  note r = get_availability_not_free [OF cur occ, of strftime]
  show ?thesis
  proof (cases "next_available_schedule db now uid")
    case None
    with r next_available_schedule_None_iff [of db now uid] show ?thesis
      by (simp add: next_where_def)
  next
    case (Some nxt)
    from next_available_schedule_Some [OF Some] r Some show ?thesis
      by (simp add: next_where_def)
  qed
qed

text \<open>
  The example of the specification: a booked block from 10:00 to 11:00 and a free block
  from 11:30, asked at 10:30.
\<close>

theorem occupied_schedule_searches_forward_witness:
  "\<not> isAvailable (get_availability ex_strftime [ex_booked, ex_later] (at_clock 10 30) ''u1'') \<and>
   next_available_schedule [ex_booked, ex_later] (at_clock 10 30) ''u1'' = Some ex_later \<and>
   get_availability ex_strftime [ex_booked, ex_later] (at_clock 10 30) ''u1'' =
     \<lparr>resp_userId = ''u1'', isAvailable = False,
      message = Some ''Unavailable until 1970-01-01 11:30'',
      timeUntilNextAvailability = Some 60\<rparr>"
proof -
  have nx: "next_available_schedule [ex_booked, ex_later] (at_clock 10 30) ''u1'' = Some ex_later"
    by (simp add: avail_defs ex_rows)
  have "[ex_booked, ex_later] = [] @ ex_booked # [ex_later]" by simp
  moreover have "\<forall>p\<in>set []. \<not> current_where ''u1'' (at_clock 10 30) p" by simp
  moreover have "current_where ''u1'' (at_clock 10 30) ex_booked"
    by (simp add: current_where_def ex_rows)
  moreover have "Appointment ex_booked \<noteq> []" by (simp add: ex_rows)
  ultimately show ?thesis
    using occupied_schedule_searches_forward [of "[ex_booked, ex_later]" "[]" ex_booked "[ex_later]" "''u1''" "at_clock 10 30"
        ex_strftime] nx
    by (simp add: ex_rows ex_strftime_def double_eval)
qed

text \<open>
  C2 as stated fails when two Schedules of the user overlap: the booked block contains
  10:30, but the lookup selects the free block stored before it and the answer is
  \<open>isAvailable = True\<close>.
\<close>

theorem booked_schedule_behind_free_one:
  "ex_booked \<in> set [ex_free, ex_booked] \<and> userId ex_booked = ''u1'' \<and>
   startTime ex_booked \<le> at_clock 10 30 \<and> at_clock 10 30 \<le> endTime ex_booked \<and>
   Appointment ex_booked \<noteq> [] \<and>
   isAvailable (get_availability ex_strftime [ex_free, ex_booked] (at_clock 10 30) ''u1'')"
  by (simp add: avail_defs ex_rows)

text \<open>
  C3 on a far start. The user is booked at 10:00:00.000001 on the epoch day and the next
  available Schedule starts on 3000-01-01 at 10:00, which is 32503679999.999999 seconds
  later. The floor of these seconds divided by 60 is 541727999, but the nearest float
  of the seconds is 32503680000, and \<open>timeUntilNextAvailability\<close> is 541728000: the
  value is rounded up to the next minute.
\<close>

theorem far_start_rounds_up_to_next_minute:
  "next_available_schedule [ex_booked, ex_far] (at_clock 10 0 + 1) ''u1'' = Some ex_far \<and>
   startTime ex_far - (at_clock 10 0 + 1) = 32503679999999999 \<and>
   \<lfloor>(32503679999999999 / 1000000 :: rat) / 60\<rfloor> = 541727999 \<and>
   total_seconds (startTime ex_far - (at_clock 10 0 + 1)) = 32503680000 \<and>
   timeUntilNextAvailability
     (get_availability ex_strftime [ex_booked, ex_far] (at_clock 10 0 + 1) ''u1'')
     = Some 541728000"
proof -
  have d: "startTime ex_far - (at_clock 10 0 + 1) = 32503679999999999"
    by (simp add: ex_far_def at_clock_def)
  have fl: "\<lfloor>(32503679999999999 / 1000000 :: rat) / 60\<rfloor> = 541727999"
    by (simp add: floor_numeral_div)
  have ts: "total_seconds 32503679999999999 = 32503680000"
    by (simp add: double_eval)
  have mi: "py_int (float_div 32503680000 60) = 541728000"
    by (simp add: double_eval)
  have cur: "current_schedule [ex_booked, ex_far] (at_clock 10 0 + 1) ''u1'' = Some ex_booked"
    by (simp add: avail_defs ex_rows ex_far_def)
  have occ: "\<not> (available ex_booked \<and> Appointment ex_booked = [])"
    by (simp add: ex_rows)
  have nx: "next_available_schedule [ex_booked, ex_far] (at_clock 10 0 + 1) ''u1'' = Some ex_far"
    by (simp add: avail_defs ex_rows ex_far_def)
  have r: "timeUntilNextAvailability
     (get_availability ex_strftime [ex_booked, ex_far] (at_clock 10 0 + 1) ''u1'')
     = Some 541728000"
    unfolding get_availability_not_free [OF cur occ] nx by (simp add: d ts mi)
  have ts': "total_seconds (startTime ex_far - (at_clock 10 0 + 1)) = 32503680000"
    unfolding d by (rule ts)
  from nx d fl ts' r show ?thesis by blast
qed

text \<open>
  C4, as the code has it. Interval membership is inclusive at both ends: a Schedule with
  \<open>startTime \<le> endTime\<close> satisfies the filter of the current Schedule at
  \<open>now = startTime\<close> and at \<open>now = endTime\<close>, so the lookup finds a current Schedule
  at these instants; it selects that very Schedule when no Schedule stored before it
  satisfies the filter as well.
\<close>

theorem boundary_instants_are_current:
  assumes "userId s = uid" and "startTime s \<le> endTime s"
    and "now = startTime s \<or> now = endTime s"
  shows "current_where uid now s \<and>
     (s \<in> set db \<longrightarrow> current_schedule db now uid \<noteq> None) \<and>
     ((\<forall>p\<in>set pre. \<not> current_where uid now p) \<longrightarrow>
        current_schedule (pre @ s # post) now uid = Some s)"
proof -
  from assms have cw: "current_where uid now s" by (auto simp: current_where_def)
  have a: "current_schedule db now uid \<noteq> None" if "s \<in> set db"
    using that cw current_schedule_None_iff [of db now uid] by blast
  have b: "current_schedule (pre @ s # post) now uid = Some s"
    if "\<forall>p\<in>set pre. \<not> current_where uid now p"
    using that cw unfolding current_schedule_Some_iff by blast
  from cw a b show ?thesis by blast
qed

text \<open>The booked block is the current one at 10:00 and at 11:00.\<close>

theorem boundary_instants_are_current_witness:
  "current_schedule [ex_later, ex_booked] (at_clock 10 0) ''u1'' = Some ex_booked \<and>
   current_schedule [ex_later, ex_booked] (at_clock 11 0) ''u1'' = Some ex_booked"
proof -
  have u: "userId ex_booked = ''u1''" and le: "startTime ex_booked \<le> endTime ex_booked"
    and s: "at_clock 10 0 = startTime ex_booked \<or> at_clock 10 0 = endTime ex_booked"
    and e: "at_clock 11 0 = startTime ex_booked \<or> at_clock 11 0 = endTime ex_booked"
    by (simp_all add: ex_rows)
  have ps: "\<forall>p\<in>set [ex_later]. \<not> current_where ''u1'' (at_clock 10 0) p"
    and pe: "\<forall>p\<in>set [ex_later]. \<not> current_where ''u1'' (at_clock 11 0) p"
    by (simp_all add: current_where_def ex_rows)
  from boundary_instants_are_current [OF u le s, of "[ex_later, ex_booked]" "[ex_later]" "[]"] ps
    boundary_instants_are_current [OF u le e, of "[ex_later, ex_booked]" "[ex_later]" "[]"] pe
  show ?thesis by simp
qed

text \<open>
  C4 as stated fails for back-to-back blocks, which share their boundary instant: at
  11:00, the \<open>startTime\<close> of the block marked unavailable, the lookup selects the free
  block that ends at 11:00, and the answer is \<open>isAvailable = True\<close>.
\<close>

theorem adjacent_schedules_share_boundary:
  "ex_after \<in> set [ex_free, ex_after] \<and> userId ex_after = ''u1'' \<and>
   startTime ex_after = at_clock 11 0 \<and> \<not> available ex_after \<and>
   current_schedule [ex_free, ex_after] (at_clock 11 0) ''u1'' = Some ex_free \<and>
   ex_free \<noteq> ex_after \<and>
   isAvailable (get_availability ex_strftime [ex_free, ex_after] (at_clock 11 0) ''u1'')"
  by (simp add: avail_defs ex_rows ex_after_def)

text \<open>
  C6. When no Schedule of the user has an interval that contains \<open>now\<close>, the answer is
  \<open>isAvailable = False\<close> with the message "No current schedules found" and without
  \<open>timeUntilNextAvailability\<close>.
\<close>

theorem no_current_schedule_response:
  assumes "\<forall>s\<in>set db. \<not> (userId s = uid \<and> startTime s \<le> now \<and> now \<le> endTime s)"
  shows "get_availability strftime db now uid =
     \<lparr>resp_userId = uid, isAvailable = False, message = Some ''No current schedules found'',
      timeUntilNextAvailability = None\<rparr>"
proof -
  from assms have "current_schedule db now uid = None"
    unfolding current_schedule_None_iff current_where_def by simp
  then show ?thesis by (simp add: get_availability_def)
qed

text \<open>At 11:15, between the two free blocks.\<close>

theorem no_current_schedule_response_witness:
  "get_availability ex_strftime [ex_free, ex_later] (at_clock 11 15) ''u1'' =
     \<lparr>resp_userId = ''u1'', isAvailable = False, message = Some ''No current schedules found'',
      timeUntilNextAvailability = None\<rparr>"
proof -
  have "\<forall>s\<in>set [ex_free, ex_later].
          \<not> (userId s = ''u1'' \<and> startTime s \<le> at_clock 11 15 \<and> at_clock 11 15 \<le> endTime s)"
    by (simp add: ex_rows)
  then show ?thesis by (rule no_current_schedule_response)
qed

text \<open>
  C7, as the code has it. When the Schedule that the lookup selects is unavailable or
  occupied and no Schedule of the same user has \<open>startTime > now\<close> and
  \<open>available = True\<close>, the answer is \<open>isAvailable = False\<close>, without
  \<open>timeUntilNextAvailability\<close>, with the message "No more available schedules today".
\<close>

theorem no_next_schedule_response:
  assumes "db = pre @ c # post" and "\<forall>p\<in>set pre. \<not> current_where uid now p"
    and "current_where uid now c" and "\<not> available c \<or> Appointment c \<noteq> []"
    and "\<forall>s\<in>set db. \<not> (userId s = uid \<and> startTime s > now \<and> available s)"
  shows "get_availability strftime db now uid =
     \<lparr>resp_userId = uid, isAvailable = False,
      message = Some ''No more available schedules today'',
      timeUntilNextAvailability = None\<rparr>"
proof -
  from assms(1-3) have cur: "current_schedule db now uid = Some c"
    unfolding current_schedule_Some_iff by blast
  from assms(4) have occ: "\<not> (available c \<and> Appointment c = [])" by blast
  from assms(5) have "next_available_schedule db now uid = None"
    unfolding next_available_schedule_None_iff next_where_def by simp
  with get_availability_not_free [OF cur occ, of strftime] show ?thesis by simp
qed

text \<open>The block marked unavailable is selected at 10:30 and nothing starts later.\<close>

theorem no_next_schedule_response_witness:
  "get_availability ex_strftime [ex_blocked, ex_free] (at_clock 10 30) ''u1'' =
     \<lparr>resp_userId = ''u1'', isAvailable = False,
      message = Some ''No more available schedules today'',
      timeUntilNextAvailability = None\<rparr>"
proof -
  have "[ex_blocked, ex_free] = [] @ ex_blocked # [ex_free]" by simp
  moreover have "\<forall>p\<in>set []. \<not> current_where ''u1'' (at_clock 10 30) p" by simp
  moreover have "current_where ''u1'' (at_clock 10 30) ex_blocked"
    by (simp add: current_where_def ex_rows)
  moreover have "\<not> available ex_blocked \<or> Appointment ex_blocked \<noteq> []"
    by (simp add: ex_rows)
  moreover have "\<forall>s\<in>set [ex_blocked, ex_free].
       \<not> (userId s = ''u1'' \<and> startTime s > at_clock 10 30 \<and> available s)"
    by (simp add: ex_rows)
  ultimately show ?thesis by (rule no_next_schedule_response)
qed

text \<open>
  C7 as stated fails in two ways. With overlapping Schedules a current Schedule that is
  unavailable exists and no later available one does, yet the lookup selects the free
  block stored first and the answer is \<open>isAvailable = True\<close>. And where the branch is
  taken, the message is "No more available schedules today", not the text of the claim.
\<close>

theorem unavailable_schedule_behind_free_one:
  "ex_blocked \<in> set [ex_free, ex_blocked] \<and> userId ex_blocked = ''u1'' \<and>
   startTime ex_blocked \<le> at_clock 10 30 \<and> at_clock 10 30 \<le> endTime ex_blocked \<and>
   \<not> available ex_blocked \<and>
   next_available_schedule [ex_free, ex_blocked] (at_clock 10 30) ''u1'' = None \<and>
   isAvailable (get_availability ex_strftime [ex_free, ex_blocked] (at_clock 10 30) ''u1'') \<and>
   message (get_availability ex_strftime [ex_blocked] (at_clock 10 30) ''u1'')
     = Some ''No more available schedules today'' \<and>
   message (get_availability ex_strftime [ex_blocked] (at_clock 10 30) ''u1'')
     \<noteq> Some ''no further availability in the visible horizon''"
  by (simp add: avail_defs ex_rows)

text \<open>
  C10, as the code has it. Every answer carries a message. It carries
  \<open>timeUntilNextAvailability\<close> exactly when \<open>isAvailable = False\<close>, the lookup found a
  current Schedule, and a Schedule of the same user with \<open>startTime > now\<close> and
  \<open>available = True\<close> exists. An answer with \<open>isAvailable = True\<close> never carries it.
\<close>

theorem response_fields_invariant:
  "message (get_availability strftime db now uid) \<noteq> None \<and>
   (timeUntilNextAvailability (get_availability strftime db now uid) \<noteq> None \<longleftrightarrow>
      \<not> isAvailable (get_availability strftime db now uid) \<and>
      current_schedule db now uid \<noteq> None \<and>
      (\<exists>s\<in>set db. userId s = uid \<and> startTime s > now \<and> available s)) \<and>
   (isAvailable (get_availability strftime db now uid) \<longrightarrow>
      timeUntilNextAvailability (get_availability strftime db now uid) = None)"
proof (cases "current_schedule db now uid")
  case None
  then show ?thesis by (simp add: get_availability_def)
next
  case (Some c)
  show ?thesis
  proof (cases "available c \<and> Appointment c = []")
    case True
    with Some show ?thesis by (simp add: get_availability_def)
  next
    case False
    note r = get_availability_not_free [OF Some False, of strftime]
    show ?thesis
    proof (cases "next_available_schedule db now uid")
      case None
      with r next_available_schedule_None_iff [of db now uid] show ?thesis
        by (simp add: next_where_def)
    next
      case (Some nxt)
      from next_available_schedule_Some [OF Some]
      have "\<exists>s\<in>set db. userId s = uid \<and> startTime s > now \<and> available s"
        unfolding next_where_def by blast
      with r Some \<open>current_schedule db now uid = Some c\<close> show ?thesis by simp
    qed
  qed
qed

text \<open>Blocked now, free from 11:30: the answer carries both fields.\<close>

theorem response_fields_invariant_witness:
  "timeUntilNextAvailability
     (get_availability ex_strftime [ex_blocked, ex_later] (at_clock 10 30) ''u1'') \<noteq> None \<and>
   message (get_availability ex_strftime [ex_blocked, ex_later] (at_clock 10 30) ''u1'') \<noteq> None"
proof -
  have "\<not> isAvailable (get_availability ex_strftime [ex_blocked, ex_later] (at_clock 10 30) ''u1'')"
    by (simp add: avail_defs ex_rows)
  moreover have "current_schedule [ex_blocked, ex_later] (at_clock 10 30) ''u1'' \<noteq> None"
    by (simp add: avail_defs ex_rows)
  moreover have "\<exists>s\<in>set [ex_blocked, ex_later].
      userId s = ''u1'' \<and> startTime s > at_clock 10 30 \<and> available s"
    by (simp add: ex_rows)
  ultimately show ?thesis
    using response_fields_invariant [of ex_strftime "[ex_blocked, ex_later]" "at_clock 10 30" "''u1''"] by blast
qed

text \<open>
  C10 as stated fails when the user has no current Schedule: at 10:30 a later available
  Schedule exists and the answer is \<open>isAvailable = False\<close>, but no forward search is
  made and \<open>timeUntilNextAvailability\<close> is absent.
\<close>

theorem no_estimate_without_current_schedule:
  "\<not> isAvailable (get_availability ex_strftime [ex_later] (at_clock 10 30) ''u1'') \<and>
   ex_later \<in> set [ex_later] \<and> userId ex_later = ''u1'' \<and>
   startTime ex_later > at_clock 10 30 \<and> available ex_later \<and>
   timeUntilNextAvailability (get_availability ex_strftime [ex_later] (at_clock 10 30) ''u1'') = None"
  by (simp add: avail_defs ex_rows)

section \<open>Claims about the token refresh\<close>

text \<open>
  \<open>find_unique\<close> finds nothing exactly when no row satisfies the filter; what it finds
  is a row that satisfies it.
\<close>

lemma find_unique_None_iff:
  "find_unique wh rows = None \<longleftrightarrow> (\<forall>r\<in>set rows. \<not> wh r)"
  by (auto simp: find_unique_def find_None_iff)

lemma find_unique_Some:
  assumes "find_unique wh rows = Some r"
  shows "r \<in> set rows \<and> wh r"
proof -
  from assms obtain pre post where "rows = pre @ r # post" "wh r"
    unfolding find_unique_def find_Some_split by blast
  then show ?thesis by simp
qed

text \<open>
  No call of \<open>refresh_token\<close> returns: without a matching record it raises the
  \<open>ValueError\<close>, and with one the comparison of the naive \<open>utcnow()\<close> with the aware
  \<open>expiryDate\<close> raises \<open>TypeError\<close> before anything is written.
\<close>

lemma refresh_token_raises:
  "refresh_token enc db n1 n2 n3 t =
     (case find_unique (\<lambda>a. token a = t) db of
        None \<Rightarrow> Inl (ValueError ''Refresh token is invalid or has expired.'')
      | Some a \<Rightarrow> Inl (TypeError cannot_compare))"
  by (simp add: refresh_token_def split: option.splits)

text \<open>
  C5 on a stored token. The record of the token "opaque" expires 100 s after the epoch.
  Presented 200 s after the epoch, when the record is past its expiry, the call raises
  \<open>TypeError\<close> and not the \<open>ValueError\<close> of an invalid token; presented 5 s after the
  epoch, when the record is valid, the call raises \<open>TypeError\<close> as well, so the token is
  not rotated.
\<close>

theorem refresh_token_matching_record_raises_TypeError:
  "token ex_opaque = ''opaque'' \<and> expiryDate ex_opaque < 200000000 \<and>
   refresh_token jwt_encode_seconds [ex_opaque] 200000000 200000000 200000000 ''opaque''
     = Inl (TypeError cannot_compare) \<and>
   5000000 < expiryDate ex_opaque \<and>
   refresh_token jwt_encode_seconds [ex_opaque] 5000000 5000000 5000000 ''opaque''
     = Inl (TypeError cannot_compare) \<and>
   refresh_token jwt_encode_seconds [ex_opaque] 5000000 5000000 5000000 ''absent''
     = Inl (ValueError ''Refresh token is invalid or has expired.'')"
  by (simp add: refresh_token_raises find_unique_def ex_opaque_def)

section \<open>Claims about the user update\<close>

text \<open>
  The tables that \<open>update_user\<close> leaves behind do not depend on whether the final
  read of the User succeeds.
\<close>

lemma apply_profile_payload_first_only:
  "lastName (apply_profile_payload fn None p) = lastName p"
  "profile_userId (apply_profile_payload fn None p) = profile_userId p"
  "firstName (apply_profile_payload (Some f) None p) = f"
  by (simp_all add: apply_profile_payload_def split: option.splits)

lemma update_user_tables:
  "snd (update_user users profiles uid email_arg firstName_arg lastName_arg role_arg) =
     ((if email_arg \<noteq> None \<or> role_arg \<noteq> None then
         map (\<lambda>u. if user_id u = uid then apply_update_payload email_arg role_arg u else u) users
       else users),
      (if truthy firstName_arg \<or> truthy lastName_arg then
         (case find_unique (\<lambda>p. profile_userId p = uid) profiles of
            Some profile \<Rightarrow>
              map (\<lambda>p. if profile_userId p = uid
                        then apply_profile_payload firstName_arg lastName_arg p else p) profiles
          | None \<Rightarrow> profiles)
       else profiles))"
  unfolding update_user_def Let_def
  by (cases "find_unique (\<lambda>u. user_id u = uid)
               (if email_arg \<noteq> None \<or> role_arg \<noteq> None then
                  map (\<lambda>u. if user_id u = uid then apply_update_payload email_arg role_arg u else u) users
                else users)") (simp_all only: option.case snd_conv)

lemma profiles_first_only_firstName:
  "\<forall>q\<in>set (map (\<lambda>p. if profile_userId p = uid
                         then apply_profile_payload (Some f) None p else p) ps).
      profile_userId q = uid \<longrightarrow> firstName q = f"
  by (induction ps) (simp_all add: apply_profile_payload_first_only)

text \<open>
  C8. When only \<open>firstName\<close> is provided (\<open>email\<close>, \<open>lastName\<close> and \<open>role\<close> are
  \<open>None\<close>), \<open>update_user\<close> leaves the User table as it was, so the stored email and
  role are unchanged, and leaves the \<open>lastName\<close> of every stored Profile unchanged,
  whether the call returns or raises. A non-empty \<open>firstName\<close> is written to the
  Profile of the user.
\<close>

theorem update_user_first_name_only:
  assumes "update_user users profiles uid None fn None None = (res, users', profiles')"
  shows "users' = users \<and>
         map lastName profiles' = map lastName profiles \<and>
         map profile_userId profiles' = map profile_userId profiles \<and>
         (\<forall>f. fn = Some f \<and> f \<noteq> [] \<longrightarrow>
            (\<forall>p\<in>set profiles'. profile_userId p = uid \<longrightarrow> firstName p = f))"
proof -
  from assms have "snd (update_user users profiles uid None fn None None) = (users', profiles')"
    by simp
  then have u: "users' = users" and p: "profiles' =
      (if truthy fn \<or> truthy None then
         (case find_unique (\<lambda>p. profile_userId p = uid) profiles of
            Some profile \<Rightarrow>
              map (\<lambda>p. if profile_userId p = uid then apply_profile_payload fn None p else p)
                profiles
          | None \<Rightarrow> profiles)
       else profiles)"
    unfolding update_user_tables by simp_all
  have l: "map lastName profiles' = map lastName profiles"
    unfolding p by (simp add: apply_profile_payload_first_only split: option.splits)
  have i: "map profile_userId profiles' = map profile_userId profiles"
    unfolding p by (simp add: apply_profile_payload_first_only split: option.splits)
  have f: "\<forall>q\<in>set profiles'. profile_userId q = uid \<longrightarrow> firstName q = f"
    if "fn = Some f" "f \<noteq> []" for f
  proof (cases "find_unique (\<lambda>p. profile_userId p = uid) profiles")
    case None
    then have "\<forall>q\<in>set profiles. profile_userId q \<noteq> uid" by (simp add: find_unique_None_iff)
    moreover from None have "profiles' = profiles" unfolding p by simp
    ultimately show ?thesis by simp
  next
    case (Some a)
    with that have "profiles' =
        map (\<lambda>p. if profile_userId p = uid then apply_profile_payload (Some f) None p else p)
          profiles"
      unfolding p by (simp add: truthy_def)
    with profiles_first_only_firstName [of uid f profiles] show ?thesis by blast
  qed
  from u l i f show ?thesis by blast
qed

text \<open>Renaming Ann to Anna keeps her last name, email and role.\<close>

theorem update_user_first_name_only_witness:
  "update_user [ex_user] [ex_profile] ''u1'' None (Some ''Anna'') None None =
     (Inr \<lparr>upd_id = ''u1'', upd_email = Some ''ann@example.org'', upd_firstName = Some ''Anna'',
           upd_lastName = None, upd_role = Some ''Professional'',
           updateStatus = ''User profile successfully updated.''\<rparr>,
      [ex_user], [ex_profile\<lparr>firstName := ''Anna''\<rparr>]) \<and>
   map lastName [ex_profile\<lparr>firstName := ''Anna''\<rparr>] = map lastName [ex_profile] \<and>
   map firstName [ex_profile\<lparr>firstName := ''Anna''\<rparr>] = [''Anna'']"
proof -
  have r: "update_user [ex_user] [ex_profile] ''u1'' None (Some ''Anna'') None None =
     (Inr \<lparr>upd_id = ''u1'', upd_email = Some ''ann@example.org'', upd_firstName = Some ''Anna'',
           upd_lastName = None, upd_role = Some ''Professional'',
           updateStatus = ''User profile successfully updated.''\<rparr>,
      [ex_user], [ex_profile\<lparr>firstName := ''Anna''\<rparr>])"
    by (simp add: update_user_def Let_def find_unique_def truthy_def ex_user_def ex_profile_def
          apply_profile_payload_def)
  from update_user_first_name_only [OF r] r show ?thesis by simp
qed

section \<open>Claims about the login\<close>

text \<open>
  C9. A login with an email that matches no stored user and a login with an email that
  matches a user whose password fails the hash check both fail with
  \<open>Exception("Invalid login credentials.")\<close>, the error the specification calls
  InvalidCredentialsError: the two results are equal, in kind and in message.
\<close>

theorem login_failures_indistinguishable:
  assumes "\<forall>u\<in>set users. email u \<noteq> email_a"
    and "\<exists>u\<in>set users. email u = email_b"
    and "\<forall>u\<in>set users. email u = email_b \<longrightarrow> checkpw pw_b (password u) = Inr False"
  shows "login_user checkpw enc users now_a email_a pw_a = Inl (Exception ''Invalid login credentials.'') \<and>
         login_user checkpw enc users now_b email_b pw_b = Inl (Exception ''Invalid login credentials.'') \<and>
         login_user checkpw enc users now_a email_a pw_a = login_user checkpw enc users now_b email_b pw_b"
proof -
  from assms(1) have "find_unique (\<lambda>u. email u = email_a) users = None"
    by (simp add: find_unique_None_iff)
  then have a: "login_user checkpw enc users now_a email_a pw_a
                  = Inl (Exception ''Invalid login credentials.'')"
    by (simp add: login_user_def)
  from assms(2) have "find_unique (\<lambda>u. email u = email_b) users \<noteq> None"
    by (simp add: find_unique_None_iff)
  then obtain u where fu: "find_unique (\<lambda>u. email u = email_b) users = Some u" by blast
  from find_unique_Some [OF fu] assms(3) have "checkpw pw_b (password u) = Inr False" by blast
  with fu have b: "login_user checkpw enc users now_b email_b pw_b
                  = Inl (Exception ''Invalid login credentials.'')"
    by (simp add: login_user_def)
  from a b show ?thesis by simp
qed

text \<open>
  An unknown email and a wrong password for a known one give the same error; the right
  password logs in.
\<close>

theorem login_failures_indistinguishable_witness:
  "login_user ex_checkpw jwt_encode_seconds [ex_user] 0 ''bob@example.org'' ''secret''
     = Inl (Exception ''Invalid login credentials.'') \<and>
   login_user ex_checkpw jwt_encode_seconds [ex_user] 0 ''ann@example.org'' ''guess''
     = Inl (Exception ''Invalid login credentials.'') \<and>
   \<not> isl (login_user ex_checkpw jwt_encode_seconds [ex_user] 0 ''ann@example.org'' ''secret'')"
proof -
  have 1: "\<forall>u\<in>set [ex_user]. email u \<noteq> ''bob@example.org''" by (simp add: ex_user_def)
  have 2: "\<exists>u\<in>set [ex_user]. email u = ''ann@example.org''" by (simp add: ex_user_def)
  have 3: "\<forall>u\<in>set [ex_user]. email u = ''ann@example.org'' \<longrightarrow>
             ex_checkpw ''guess'' (password u) = Inr False"
    by (simp add: ex_user_def ex_checkpw_def)
  have 4: "\<not> isl (login_user ex_checkpw jwt_encode_seconds [ex_user] 0 ''ann@example.org'' ''secret'')"
    by (simp add: login_user_def find_unique_def ex_user_def ex_checkpw_def Let_def)
  from login_failures_indistinguishable [where users = "[ex_user]" and email_a = "''bob@example.org''"
      and email_b = "''ann@example.org''" and checkpw = ex_checkpw and pw_b = "''guess''"
      and enc = jwt_encode_seconds and now_a = 0 and now_b = 0 and pw_a = "''secret''", OF 1 2 3] 4
  show ?thesis by blast
qed

end
